theory Spec2Isabelle
  imports Main "HOL-Library.Sublist"
begin

section \<open>Data model (modules/browser\_automation.py, modules/password\_loader.py)\<close>

text \<open>
  Python strings are modelled as \<^typ>\<open>string\<close>; the non-ASCII selector fragments of the
  source are written as their UTF-8 bytes. An \<open>Optional[str]\<close> is a \<^typ>\<open>string option\<close>,
  and Python's truth test on it (\<open>if not username_selector\<close>) is \<open>truthy\<close>: \<open>None\<close> and
  the empty string are both false.
\<close>

datatype LoginStatus = SUCCESS | FAILED | ERROR | CAPTCHA_REQUIRED | TIMEOUT | ELEMENT_NOT_FOUND

record Credential =
  username :: string
  password :: string
  note_text :: string

text \<open>\<open>LoginResult\<close>; the wall-clock \<open>timestamp\<close> field is not modelled.\<close>

record LoginResult =
  status :: LoginStatus
  credential :: Credential
  url :: string
  message :: string
  screenshot_path :: "string option"

text \<open>The dictionary returned by \<open>detect_login_form\<close>, with its four fixed keys.\<close>

record selectors =
  username_selector :: "string option"
  password_selector :: "string option"
  captcha_selector :: "string option"
  submit_selector :: "string option"

definition truthy :: "string option \<Rightarrow> bool" where
  "truthy s = (case s of None \<Rightarrow> False | Some v \<Rightarrow> v \<noteq> [])"

section \<open>Collaborators: browser page, OCR engine, clock, stop flag\<close>

text \<open>
  The two exception classes the source distinguishes: Playwright's \<open>TimeoutError\<close> and
  every other \<open>Exception\<close>; the string is \<open>str(e)\<close>.
\<close>

datatype exn = PlaywrightTimeout string | OtherException string

definition exn_str :: "exn \<Rightarrow> string" where
  "exn_str e = (case e of PlaywrightTimeout m \<Rightarrow> m | OtherException m \<Rightarrow> m)"

text \<open>
  Every call the code makes on a collaborator is an event. Durations are the
  millisecond arguments of the source. \<open>Sleep\<close> is \<open>asyncio.sleep\<close> and the three
  \<open>Emit\<close> events are the Qt signals of the worker; these four cannot raise.

  The logger (modules/logger.py) prints through a rich console with markup switched on,
  which raises on a message with unbalanced markup, so its calls can raise like any other
  call: \<open>LogInfo\<close>, \<open>LogWarning\<close>, \<open>LogError\<close>, \<open>LogSuccess\<close> and \<open>LogFailed\<close> are the
  logger methods of these names with their message, \<open>LogSection n\<close> is
  \<open>logger.section(f"Starting Batch Login Test - {n} credentials")\<close>, \<open>LogProgress\<close> is
  \<open>logger.progress_info\<close>, \<open>LogAttempt\<close> is \<open>logger.credential_attempt\<close> and
  \<open>LogSummary\<close> is \<open>logger.summary\<close>. Only \<open>logger.debug\<close> is left out: its records
  stay below the level of the console handler and reach the file handler alone, which
  handles its own errors. \<open>BrowserAutomation.start\<close> and \<open>stop\<close>, which run before and
  after the loops, are left out too.
\<close>

datatype call =
    NewPage
  | SetDefaultTimeout int
  | Goto string
  | WaitForLoadState int
  | QuerySelector string
  | Fill string string
  | WaitForTimeout int
  | ElementScreenshot string
  | Classification string
  | Click string
  | Press string string
  | PageScreenshot string
  | ClosePage
  | Sleep int
  | LogInfo string
  | LogWarning string
  | LogError string
  | LogSuccess string
  | LogFailed string
  | LogSection nat
  | LogProgress nat nat string
  | LogAttempt string string LoginStatus
  | LogSummary nat nat nat nat
  | EmitProgress nat nat string
  | EmitResult LoginResult
  | EmitFinished "LoginResult list"

text \<open>
  The collaborators answer depending on the whole history of calls made so far, so the
  page may change after any call (navigation, submit). \<open>act\<close> answers the calls that
  return nothing (\<open>None\<close>: returned normally), \<open>query\<close> is \<open>page.query_selector\<close>
  (\<open>Inr True\<close>: an element was found), \<open>element_screenshot\<close> the bytes of
  \<open>element.screenshot()\<close>, \<open>classification\<close> is \<open>ocr.classification\<close>, \<open>page_url\<close>
  is \<open>page.url\<close>, \<open>clock\<close> is \<open>str(int(time.time()))\<close> and \<open>is_running\<close> is the
  worker's \<open>_is_running\<close> flag, which another thread clears. Two functions of the
  Python library are parameters as well: \<open>isalnum\<close> is \<open>str.isalnum\<close> on one character
  and \<open>join_path d f\<close> is \<open>str(Path(d) / f)\<close>.
\<close>

record env =
  act :: "call list \<Rightarrow> call \<Rightarrow> exn option"
  query :: "call list \<Rightarrow> string \<Rightarrow> exn + bool"
  element_screenshot :: "call list \<Rightarrow> string \<Rightarrow> exn + string"
  classification :: "call list \<Rightarrow> string \<Rightarrow> exn + string"
  page_url :: "call list \<Rightarrow> string"
  clock :: "call list \<Rightarrow> string"
  is_running :: "call list \<Rightarrow> bool"
  isalnum :: "char \<Rightarrow> bool"
  join_path :: "string \<Rightarrow> string \<Rightarrow> string"

section \<open>Computations: history in, result or exception and new events out\<close>

type_synonym 'a prog = "call list \<Rightarrow> (exn + 'a) \<times> call list"

definition ret :: "'a \<Rightarrow> 'a prog" where
  "ret x tr = (Inr x, [])"

definition after :: "call list \<Rightarrow> 'a prog \<Rightarrow> 'a prog" where
  "after d m tr = (case m (tr @ d) of (r, d') \<Rightarrow> (r, d @ d'))"

text \<open>Sequencing: an exception of the first part skips the second.\<close>

definition bnd :: "'a prog \<Rightarrow> ('a \<Rightarrow> 'b prog) \<Rightarrow> 'b prog" where
  "bnd m f tr = (case m tr of (Inl e, d) \<Rightarrow> (Inl e, d) | (Inr x, d) \<Rightarrow> after d (f x) tr)"

text \<open>\<open>try: m except Exception as e: h e\<close>.\<close>

definition try_except :: "'a prog \<Rightarrow> (exn \<Rightarrow> 'a prog) \<Rightarrow> 'a prog" where
  "try_except m h tr = (case m tr of (Inl e, d) \<Rightarrow> after d (h e) tr | (Inr x, d) \<Rightarrow> (Inr x, d))"

text \<open>
  \<open>try: m finally: fin\<close>: \<open>fin\<close> runs on every exit of \<open>m\<close>; an exception of \<open>fin\<close>
  replaces the outcome of \<open>m\<close>.
\<close>

definition try_finally :: "'a prog \<Rightarrow> unit prog \<Rightarrow> 'a prog" where
  "try_finally m fin tr =
     (case m tr of (r, d) \<Rightarrow>
        (case fin (tr @ d) of (Inl e, d') \<Rightarrow> (Inl e, d @ d') | (Inr _, d') \<Rightarrow> (r, d @ d')))"

text \<open>
  \<open>try: x = m except Exception as e: h e else: f x\<close>: the handler guards \<open>m\<close> alone.
\<close>

definition try_else :: "'a prog \<Rightarrow> ('a \<Rightarrow> 'b prog) \<Rightarrow> (exn \<Rightarrow> 'b prog) \<Rightarrow> 'b prog" where
  "try_else m f h tr =
     (case m tr of (Inl e, d) \<Rightarrow> after d (h e) tr | (Inr x, d) \<Rightarrow> after d (f x) tr)"

definition perform :: "env \<Rightarrow> call \<Rightarrow> unit prog" where
  "perform w c tr = (case act w tr c of None \<Rightarrow> (Inr (), [c]) | Some e \<Rightarrow> (Inl e, [c]))"

definition emit :: "call \<Rightarrow> unit prog" where
  "emit c tr = (Inr (), [c])"

definition query_selector :: "env \<Rightarrow> string \<Rightarrow> bool prog" where
  "query_selector w pattern tr = (query w tr pattern, [QuerySelector pattern])"

section \<open>Strings\<close>

text \<open>
  \<open>str.lower\<close> on ASCII: the letters A to Z are mapped to a to z, every other byte is
  kept. \<open>sub in s\<close> is \<^const>\<open>sublist\<close> and \<open>s.startswith(p)\<close> is \<^const>\<open>prefix\<close>.
\<close>

definition lower_char :: "char \<Rightarrow> char" where
  "lower_char c =
     (case map_of (zip ''ABCDEFGHIJKLMNOPQRSTUVWXYZ'' ''abcdefghijklmnopqrstuvwxyz'') c of
        Some l \<Rightarrow> l | None \<Rightarrow> c)"

definition lower :: "string \<Rightarrow> string" where
  "lower s = map lower_char s"

section \<open>\<open>_verify_login_success\<close>\<close>

definition error_patterns :: "string list" where
  "error_patterns =
     [''text=/'' @ [CHR 0xE9, CHR 0x94, CHR 0x99, CHR 0xE8, CHR 0xAF, CHR 0xAF] @ ''|''
        @ [CHR 0xE5, CHR 0xA4, CHR 0xB1, CHR 0xE8, CHR 0xB4, CHR 0xA5]
        @ ''|error|failed|invalid|incorrect/i'',
      ''.error'',
      ''.alert-error'',
      ''.alert-danger'',
      ''#error'']"

definition success_patterns :: "string list" where
  "success_patterns =
     [''text=/'' @ [CHR 0xE6, CHR 0xAC, CHR 0xA2, CHR 0xE8, CHR 0xBF, CHR 0x8E]
        @ ''|welcome|dashboard|home|profile/i'',
      ''.user-menu'',
      ''.profile'',
      ''#dashboard'']"

definition username_field_pattern :: string where
  "username_field_pattern = ''input[type='text'], input[type='email']''"

text \<open>
  \<open>for pattern in patterns: element = await page.query_selector(pattern); if element: return ...\<close>:
  true at the first pattern that finds an element, false when the list is exhausted; a
  probe that raises ends the loop with that exception.
\<close>

fun probe_any :: "env \<Rightarrow> string list \<Rightarrow> bool prog" where
  "probe_any w [] tr = ret False tr"
| "probe_any w (pattern # rest) tr =
     bnd (query_selector w pattern) (\<lambda>element. if element then ret True else probe_any w rest) tr"

text \<open>The custom success indicator (lines 497 to 507): true when it decides SUCCESS.\<close>

definition indicator_matches :: "env \<Rightarrow> string \<Rightarrow> string option \<Rightarrow> bool prog" where
  "indicator_matches w current_url success_indicator =
     (case success_indicator of
        None \<Rightarrow> ret False
      | Some s \<Rightarrow>
          if s = [] then ret False
          else if prefix ''http'' s then ret (sublist s current_url)
          else query_selector w s)"

text \<open>\<open>any(err in current_url.lower() for err in ['error', 'login', 'signin'])\<close>.\<close>

definition has_error_token :: "string \<Rightarrow> bool" where
  "has_error_token current_url =
     list_ex (\<lambda>err. sublist err (lower current_url)) [''error'', ''login'', ''signin'']"

text \<open>Layers 2 to 5 (lines 497 to 545), reached when the URL test of layer 1 fails.\<close>

definition later_layers :: "env \<Rightarrow> string \<Rightarrow> string \<Rightarrow> string option \<Rightarrow> bool prog" where
  "later_layers w current_url original_url success_indicator =
     bnd (indicator_matches w current_url success_indicator) (\<lambda>hit.
       if hit then ret True
       else bnd (probe_any w error_patterns) (\<lambda>error_found.
         if error_found then ret False
         else bnd (probe_any w success_patterns) (\<lambda>success_found.
           if success_found then ret True
           else bnd (query_selector w username_field_pattern) (\<lambda>username_field.
             if username_field then ret False
             else ret (current_url \<noteq> original_url)))))"

text \<open>The body of the \<open>try\<close> block of \<open>_verify_login_success\<close>.\<close>

definition verify_steps :: "env \<Rightarrow> string \<Rightarrow> string option \<Rightarrow> bool prog" where
  "verify_steps w original_url success_indicator tr =
     (let current_url = page_url w tr in
      if current_url \<noteq> original_url \<and> \<not> has_error_token current_url
      then ret True tr
      else later_layers w current_url original_url success_indicator tr)"

definition verify_login_success :: "env \<Rightarrow> string \<Rightarrow> string option \<Rightarrow> bool prog" where
  "verify_login_success w original_url success_indicator =
     try_except (verify_steps w original_url success_indicator)
       (\<lambda>e. bnd (perform w (LogError (''Error verifying login success: '' @ exn_str e)))
              (\<lambda>_. ret False))"

section \<open>\<open>detect_login_form\<close>\<close>

text \<open>The non-ASCII words of the selector lists, as UTF-8 bytes, and the quote sign.\<close>

definition sq :: string where
  "sq = [CHR 0x27]"

definition zh_user :: string where
  "zh_user = [CHR 0xE7, CHR 0x94, CHR 0xA8, CHR 0xE6, CHR 0x88, CHR 0xB7]"

definition zh_account :: string where
  "zh_account = [CHR 0xE8, CHR 0xB4, CHR 0xA6, CHR 0xE5, CHR 0x8F, CHR 0xB7]"

definition zh_mailbox :: string where
  "zh_mailbox = [CHR 0xE9, CHR 0x82, CHR 0xAE, CHR 0xE7, CHR 0xAE, CHR 0xB1]"

definition zh_password :: string where
  "zh_password = [CHR 0xE5, CHR 0xAF, CHR 0x86, CHR 0xE7, CHR 0xA0, CHR 0x81]"

definition zh_captcha :: string where
  "zh_captcha = [CHR 0xE9, CHR 0xAA, CHR 0x8C, CHR 0xE8, CHR 0xAF, CHR 0x81, CHR 0xE7, CHR 0xA0, CHR 0x81]"

definition zh_login :: string where
  "zh_login = [CHR 0xE7, CHR 0x99, CHR 0xBB, CHR 0xE5, CHR 0xBD, CHR 0x95]"

definition zh_login_trad :: string where
  "zh_login_trad = [CHR 0xE7, CHR 0x99, CHR 0xBB, CHR 0xE9, CHR 0x8C, CHR 0x84]"

definition username_patterns :: "string list" where
  "username_patterns =
     [''input[type='text'][name*='user']'',
      ''input[type='text'][name*='login']'',
      ''input[type='text'][name*='account']'',
      ''input[type='email']'',
      ''input[type='text'][id*='user']'',
      ''input[type='text'][id*='login']'',
      ''input[type='text'][id*='account']'',
      ''input[name='username']'',
      ''input[name='email']'',
      ''input[placeholder*='' @ sq @ zh_user @ sq @ '']'',
      ''input[placeholder*='' @ sq @ zh_account @ sq @ '']'',
      ''input[placeholder*='' @ sq @ zh_mailbox @ sq @ '']'',
      ''input[placeholder*='username']'',
      ''input[placeholder*='email']'']"

definition password_patterns :: "string list" where
  "password_patterns =
     [''input[type='password']'',
      ''input[name*='pass']'',
      ''input[id*='pass']'',
      ''input[placeholder*='' @ sq @ zh_password @ sq @ '']'',
      ''input[placeholder*='password']'']"

definition captcha_patterns :: "string list" where
  "captcha_patterns =
     [''input[name*='captcha']'',
      ''input[name*='code']'',
      ''input[name*='verify']'',
      ''input[id*='captcha']'',
      ''input[id*='code']'',
      ''input[id*='verify']'',
      ''input[placeholder*='' @ sq @ zh_captcha @ sq @ '']'',
      ''input[placeholder*='captcha']'',
      ''input[placeholder*='code']'']"

definition submit_patterns :: "string list" where
  "submit_patterns =
     [''button[type='submit']'',
      ''input[type='submit']'',
      ''button:has-text('' @ sq @ zh_login @ sq @ '')'',
      ''button:has-text('' @ sq @ zh_login_trad @ sq @ '')'',
      ''button:has-text('Login')'',
      ''button:has-text('Sign in')'',
      ''button:has-text('Sign In')'',
      ''button[name*='login']'',
      ''button[id*='login']'',
      ''input[value*='' @ sq @ zh_login @ sq @ '']'',
      ''input[value*='Login']'']"

text \<open>
  One role's loop: each probe sits in its own \<open>try\<close> with a bare \<open>except: continue\<close>, so
  a probe that raises counts as no element; the first pattern with an element is stored
  and the loop is left.
\<close>

fun first_match :: "env \<Rightarrow> string list \<Rightarrow> string option prog" where
  "first_match w [] tr = ret None tr"
| "first_match w (pattern # rest) tr =
     bnd (try_except (query_selector w pattern) (\<lambda>e. ret False))
         (\<lambda>element. if element then ret (Some pattern) else first_match w rest) tr"

text \<open>
  The four loops run one after the other inside one outer \<open>try\<close>, whose handler logs
  the error and returns the dictionary as filled so far: each loop is guarded by the
  handler with the dictionary of that moment.
\<close>

definition detect_failed :: "env \<Rightarrow> selectors \<Rightarrow> exn \<Rightarrow> selectors prog" where
  "detect_failed w sel e =
     bnd (perform w (LogError (''Error detecting login form: '' @ exn_str e))) (\<lambda>_. ret sel)"

definition detect_login_form :: "env \<Rightarrow> selectors prog" where
  "detect_login_form w =
     (let s0 = \<lparr>username_selector = None, password_selector = None,
                 captcha_selector = None, submit_selector = None\<rparr> in
      try_else (first_match w username_patterns) (\<lambda>u.
        let s1 = s0\<lparr>username_selector := u\<rparr> in
        try_else (first_match w password_patterns) (\<lambda>p.
          let s2 = s1\<lparr>password_selector := p\<rparr> in
          try_else (first_match w captcha_patterns) (\<lambda>c.
            let s3 = s2\<lparr>captcha_selector := c\<rparr> in
            try_else (first_match w submit_patterns) (\<lambda>s.
              ret (s3\<lparr>submit_selector := s\<rparr>))
              (detect_failed w s3))
            (detect_failed w s2))
          (detect_failed w s1))
        (detect_failed w s0))"

section \<open>Captcha: \<open>get_captcha_image\<close>, \<open>solve_from_bytes\<close>, \<open>solve_captcha\<close>\<close>

definition captcha_image_patterns :: "string list" where
  "captcha_image_patterns =
     [''img[src*='captcha']'',
      ''img[src*='code']'',
      ''img[src*='verify']'',
      ''img[alt*='' @ sq @ zh_captcha @ sq @ '']'',
      ''img[alt*='captcha']'',
      ''#captcha-image'',
      ''.captcha-image'']"

text \<open>The image loop has no \<open>try\<close> of its own: a probe that raises leaves it.\<close>

fun find_image :: "env \<Rightarrow> string list \<Rightarrow> string option prog" where
  "find_image w [] tr = ret None tr"
| "find_image w (pattern # rest) tr =
     bnd (query_selector w pattern)
         (\<lambda>captcha_element. if captcha_element then ret (Some pattern) else find_image w rest) tr"

definition screenshot_element :: "env \<Rightarrow> string \<Rightarrow> string prog" where
  "screenshot_element w sel tr = (element_screenshot w tr sel, [ElementScreenshot sel])"

definition image_not_found :: "env \<Rightarrow> string option prog" where
  "image_not_found w = bnd (perform w (LogWarning ''Captcha image not found'')) (\<lambda>_. ret None)"

definition get_captcha_image :: "env \<Rightarrow> string option \<Rightarrow> string option prog" where
  "get_captcha_image w captcha_sel =
     try_except
       (bnd (if \<not> truthy captcha_sel then find_image w captcha_image_patterns else ret captcha_sel)
          (\<lambda>sel. case sel of
             None \<Rightarrow> image_not_found w
           | Some s \<Rightarrow>
               if s = [] then image_not_found w
               else bnd (query_selector w s) (\<lambda>captcha_element.
                 if captcha_element
                 then bnd (screenshot_element w s) (\<lambda>image_bytes. ret (Some image_bytes))
                 else ret None)))
       (\<lambda>e. bnd (perform w (LogError (''Error getting captcha image: '' @ exn_str e)))
              (\<lambda>_. ret None))"

definition classify_image :: "env \<Rightarrow> string \<Rightarrow> string prog" where
  "classify_image w image_bytes tr = (classification w tr image_bytes, [Classification image_bytes])"

text \<open>\<open>CaptchaSolver.solve_from_bytes\<close> (modules/captcha\_solver.py).\<close>

definition solve_from_bytes :: "env \<Rightarrow> string \<Rightarrow> string option prog" where
  "solve_from_bytes w image_bytes =
     try_except (bnd (classify_image w image_bytes) (\<lambda>result. ret (Some result)))
       (\<lambda>e. bnd (perform w (LogError (''Error recognizing captcha from bytes: '' @ exn_str e)))
              (\<lambda>_. ret None))"

definition solve_captcha :: "env \<Rightarrow> string option \<Rightarrow> string option prog" where
  "solve_captcha w captcha_sel =
     try_except
       (bnd (get_captcha_image w captcha_sel) (\<lambda>image_bytes.
          case image_bytes of
            None \<Rightarrow> ret None
          | Some b \<Rightarrow>
              if b = [] then ret None
              else bnd (solve_from_bytes w b) (\<lambda>captcha_text.
                bnd (case captcha_text of
                       None \<Rightarrow> perform w (LogWarning ''Failed to solve captcha'')
                     | Some t \<Rightarrow>
                         if t \<noteq> [] then perform w (LogInfo (''Captcha solved: '' @ t))
                         else perform w (LogWarning ''Failed to solve captcha''))
                    (\<lambda>_. ret captcha_text))))
       (\<lambda>e. bnd (perform w (LogError (''Error solving captcha: '' @ exn_str e)))
              (\<lambda>_. ret None))"

section \<open>\<open>_save_screenshot\<close>\<close>

text \<open>The fields of \<open>BrowserAutomation\<close> that the attempt reads.\<close>

record BrowserAutomation =
  timeout :: int
  screenshot_dir :: string

text \<open>
  The file name keeps the characters of the user name that are alphanumeric for Python
  or one of \<open>-\<close> and \<open>_\<close>; the path is the file name joined to the screenshot directory.
\<close>

definition screenshot_file :: "env \<Rightarrow> string \<Rightarrow> string \<Rightarrow> string \<Rightarrow> string \<Rightarrow> string" where
  "screenshot_file w dir user timestamp sfx =
     join_path w dir
       (filter (\<lambda>c. isalnum w c \<or> c \<in> set ''-_'') user @ ''_'' @ timestamp @ ''_'' @ sfx
          @ ''.png'')"

definition save_screenshot ::
  "env \<Rightarrow> BrowserAutomation \<Rightarrow> string \<Rightarrow> string \<Rightarrow> string prog" where
  "save_screenshot w self user sfx tr =
     (let filepath = screenshot_file w (screenshot_dir self) user (clock w tr) sfx in
      try_except (bnd (perform w (PageScreenshot filepath)) (\<lambda>_. ret filepath))
        (\<lambda>e. bnd (perform w (LogError (''Failed to save screenshot: '' @ exn_str e)))
               (\<lambda>_. ret [])) tr)"

section \<open>\<open>attempt_login\<close>\<close>

text \<open>
  Lines 375 to 394: timeout, navigation, and auto-detection when the username or the
  password selector was not given. The four selector parameters are passed as one record.
\<close>

definition resolve_selectors :: "env \<Rightarrow> selectors \<Rightarrow> selectors prog" where
  "resolve_selectors w given =
     (if \<not> truthy (username_selector given) \<or> \<not> truthy (password_selector given) then
        bnd (detect_login_form w) (\<lambda>detected. ret
          \<lparr>username_selector =
             (if \<not> truthy (username_selector given) then username_selector detected
              else username_selector given),
           password_selector =
             (if \<not> truthy (password_selector given) then password_selector detected
              else password_selector given),
           captcha_selector =
             (if \<not> truthy (captcha_selector given) then captcha_selector detected
              else captcha_selector given),
           submit_selector =
             (if \<not> truthy (submit_selector given) then submit_selector detected
              else submit_selector given)\<rparr>)
      else ret given)"

definition open_and_resolve ::
  "env \<Rightarrow> BrowserAutomation \<Rightarrow> string \<Rightarrow> selectors \<Rightarrow> selectors prog" where
  "open_and_resolve w self target given =
     bnd (perform w (SetDefaultTimeout (timeout self))) (\<lambda>_.
     bnd (perform w (LogInfo (''Navigating to: '' @ target))) (\<lambda>_.
     bnd (perform w (Goto target)) (\<lambda>_.
     bnd (perform w (WaitForLoadState (timeout self))) (\<lambda>_.
     resolve_selectors w given))))"

text \<open>\<open>if not username_selector or not password_selector\<close>: both present, or nothing.\<close>

definition required :: "selectors \<Rightarrow> (string \<times> string) option" where
  "required sel =
     (case (username_selector sel, password_selector sel) of
        (Some us, Some ps) \<Rightarrow> if us = [] \<or> ps = [] then None else Some (us, ps)
      | _ \<Rightarrow> None)"

text \<open>Lines 402 to 410.\<close>

definition fill_credentials :: "env \<Rightarrow> string \<Rightarrow> string \<Rightarrow> Credential \<Rightarrow> unit prog" where
  "fill_credentials w us ps cred =
     bnd (perform w (Fill us (username cred))) (\<lambda>_.
     bnd (perform w (WaitForTimeout 500)) (\<lambda>_.
     bnd (perform w (Fill ps (password cred))) (\<lambda>_.
     perform w (WaitForTimeout 500))))"

text \<open>
  Lines 412 to 424: \<open>Some result\<close> is the early \<open>return\<close> of CAPTCHA\_REQUIRED, \<open>None\<close>
  lets the attempt go on to the submit step; \<open>captcha_failed\<close> is the \<open>else\<close> branch.
\<close>

definition captcha_failed ::
  "env \<Rightarrow> BrowserAutomation \<Rightarrow> string \<Rightarrow> Credential \<Rightarrow> LoginResult option prog" where
  "captcha_failed w self target cred =
     bnd (perform w (LogWarning ''Failed to solve captcha'')) (\<lambda>_.
     bnd (save_screenshot w self (username cred) ''captcha_failed'') (\<lambda>path.
     ret (Some \<lparr>status = CAPTCHA_REQUIRED, credential = cred, url = target,
                 message = ''Failed to solve captcha'', screenshot_path = Some path\<rparr>)))"

definition handle_captcha ::
  "env \<Rightarrow> BrowserAutomation \<Rightarrow> string \<Rightarrow> Credential \<Rightarrow> string option
     \<Rightarrow> LoginResult option prog" where
  "handle_captcha w self target cred captcha_sel =
     (case captcha_sel of
        None \<Rightarrow> ret None
      | Some cs \<Rightarrow>
          if cs = [] then ret None
          else
            bnd (perform w (LogInfo ''Captcha field detected, attempting to solve...'')) (\<lambda>_.
            bnd (solve_captcha w None) (\<lambda>captcha_text.
              case captcha_text of
                Some t \<Rightarrow>
                  if t \<noteq> [] then
                    bnd (perform w (Fill cs t)) (\<lambda>_.
                    bnd (perform w (WaitForTimeout 500)) (\<lambda>_. ret None))
                  else captcha_failed w self target cred
              | None \<Rightarrow> captcha_failed w self target cred)))"

text \<open>Lines 426 to 452.\<close>

definition check_mark :: string where
  "check_mark = [CHR 0xE2, CHR 0x9C, CHR 0x93]"

definition cross_mark :: string where
  "cross_mark = [CHR 0xE2, CHR 0x9C, CHR 0x97]"

definition submit_and_classify ::
  "env \<Rightarrow> BrowserAutomation \<Rightarrow> string \<Rightarrow> Credential \<Rightarrow> string option \<Rightarrow> int
     \<Rightarrow> string \<Rightarrow> string option \<Rightarrow> LoginResult prog" where
  "submit_and_classify w self target cred success_indicator wait_after_submit ps submit_sel =
     bnd (case submit_sel of
            None \<Rightarrow> perform w (Press ps ''Enter'')
          | Some ss \<Rightarrow> if ss \<noteq> [] then perform w (Click ss)
                       else perform w (Press ps ''Enter'')) (\<lambda>_.
     bnd (perform w (WaitForTimeout wait_after_submit)) (\<lambda>_.
     bnd (save_screenshot w self (username cred) ''after_submit'') (\<lambda>path.
     bnd (verify_login_success w target success_indicator) (\<lambda>is_success.
     if is_success then
       bnd (perform w (LogSuccess (check_mark @ '' '' @ username cred @ '' @ '' @ target))) (\<lambda>_.
       ret \<lparr>status = SUCCESS, credential = cred, url = target,
            message = ''Login successful'', screenshot_path = Some path\<rparr>)
     else
       bnd (perform w (LogFailed (cross_mark @ '' '' @ username cred @ '' @ '' @ target))) (\<lambda>_.
       ret \<lparr>status = FAILED, credential = cred, url = target,
            message = ''Login failed - incorrect credentials or other error'',
            screenshot_path = Some path\<rparr>)))))"

text \<open>Lines 396 to 452, from the resolved selectors on.\<close>

definition login_steps ::
  "env \<Rightarrow> BrowserAutomation \<Rightarrow> string \<Rightarrow> Credential \<Rightarrow> string option \<Rightarrow> int
     \<Rightarrow> selectors \<Rightarrow> LoginResult prog" where
  "login_steps w self target cred success_indicator wait_after_submit sel =
     (case required sel of
        None \<Rightarrow>
          bnd (perform w (LogError ''Username or password field not found'')) (\<lambda>_.
          ret \<lparr>status = ELEMENT_NOT_FOUND, credential = cred, url = target,
               message = ''Username or password field not found'', screenshot_path = None\<rparr>)
      | Some (us, ps) \<Rightarrow>
          bnd (fill_credentials w us ps cred) (\<lambda>_.
          bnd (handle_captcha w self target cred (captcha_selector sel)) (\<lambda>early.
            case early of
              Some result \<Rightarrow> ret result
            | None \<Rightarrow>
                submit_and_classify w self target cred success_indicator wait_after_submit
                  ps (submit_selector sel))))"

text \<open>
  The two \<open>except\<close> clauses; \<open>page\<close> tells whether \<open>new_page\<close> had returned, the
  screenshot is taken only then. An exception raised inside a handler (by the logger)
  leaves the method.
\<close>

definition on_exception ::
  "env \<Rightarrow> BrowserAutomation \<Rightarrow> bool \<Rightarrow> Credential \<Rightarrow> string \<Rightarrow> exn \<Rightarrow> LoginResult prog" where
  "on_exception w self page cred target e =
     (case e of
        PlaywrightTimeout m \<Rightarrow>
          bnd (perform w (LogError (''Timeout: '' @ m))) (\<lambda>_.
          bnd (if page
               then bnd (save_screenshot w self (username cred) ''timeout'') (\<lambda>p. ret (Some p))
               else ret None) (\<lambda>shot.
          ret \<lparr>status = TIMEOUT, credential = cred, url = target,
               message = ''Timeout: '' @ m, screenshot_path = shot\<rparr>))
      | OtherException m \<Rightarrow>
          bnd (perform w (LogError (''Error: '' @ m))) (\<lambda>_.
          bnd (if page
               then bnd (save_screenshot w self (username cred) ''error'') (\<lambda>p. ret (Some p))
               else ret None) (\<lambda>shot.
          ret \<lparr>status = ERROR, credential = cred, url = target,
               message = ''Error: '' @ m, screenshot_path = shot\<rparr>)))"

text \<open>
  The whole method: when \<open>new_page\<close> raises there is no page, the handler takes no
  screenshot and \<open>finally\<close> closes nothing; otherwise \<open>finally\<close> closes the page on
  every exit of the \<open>try\<close> block and of its handlers.
\<close>

definition attempt_login ::
  "env \<Rightarrow> BrowserAutomation \<Rightarrow> string \<Rightarrow> Credential \<Rightarrow> selectors \<Rightarrow> string option \<Rightarrow> int
     \<Rightarrow> LoginResult prog" where
  "attempt_login w self target cred given success_indicator wait_after_submit tr =
     (case perform w NewPage tr of
        (Inl e, d) \<Rightarrow> after d (on_exception w self False cred target e) tr
      | (Inr _, d) \<Rightarrow>
          after d
            (try_finally
               (try_except
                  (bnd (open_and_resolve w self target given)
                       (login_steps w self target cred success_indicator wait_after_submit))
                  (on_exception w self True cred target))
               (perform w ClosePage)) tr)"

section \<open>\<open>batch_login\<close> and the worker loop of \<open>LoginWorker._async_run\<close>\<close>

definition success_count :: "LoginResult list \<Rightarrow> nat" where
  "success_count results = length (filter (\<lambda>r. status r = SUCCESS) results)"

definition failed_count :: "LoginResult list \<Rightarrow> nat" where
  "failed_count results = length (filter (\<lambda>r. status r = FAILED) results)"

definition error_count :: "LoginResult list \<Rightarrow> nat" where
  "error_count results =
     length (filter (\<lambda>r. status r \<in> set [ERROR, TIMEOUT, ELEMENT_NOT_FOUND]) results)"

definition progress_message :: "Credential \<Rightarrow> string" where
  "progress_message c = ''Testing: '' @ username c"

text \<open>
  \<open>for idx, credential in enumerate(credentials, 1)\<close> of \<open>batch_login\<close>; the attempt is a
  parameter so that both loops share their lemmas. The two logger calls stand outside
  any \<open>try\<close>.
\<close>

fun batch_loop ::
  "env \<Rightarrow> (Credential \<Rightarrow> LoginResult prog) \<Rightarrow> string \<Rightarrow> int \<Rightarrow> nat \<Rightarrow> nat \<Rightarrow> Credential list
     \<Rightarrow> LoginResult list \<Rightarrow> LoginResult list prog" where
  "batch_loop w attempt target delay total_n idx [] results tr = ret results tr"
| "batch_loop w attempt target delay total_n idx (c # rest) results tr =
     bnd (perform w (LogProgress idx total_n (progress_message c))) (\<lambda>_.
     bnd (attempt c) (\<lambda>result.
     bnd (perform w (LogAttempt target (username c) (status result))) (\<lambda>_.
     bnd (if idx < total_n then emit (Sleep delay) else ret ()) (\<lambda>_.
     batch_loop w attempt target delay total_n (Suc idx) rest (results @ [result]))))) tr"

definition batch_login ::
  "env \<Rightarrow> BrowserAutomation \<Rightarrow> string \<Rightarrow> Credential list \<Rightarrow> selectors \<Rightarrow> string option \<Rightarrow> int
     \<Rightarrow> LoginResult list prog" where
  "batch_login w self target credentials given success_indicator delay_between_attempts =
     bnd (perform w (LogSection (length credentials))) (\<lambda>_.
     bnd (batch_loop w (\<lambda>c. attempt_login w self target c given success_indicator 3000)
            target delay_between_attempts (length credentials) 1 credentials []) (\<lambda>results.
     bnd (perform w (LogSummary (length credentials) (success_count results)
                       (failed_count results) (error_count results))) (\<lambda>_.
     ret results)))"



section \<open>Properties of computations and example environments\<close>

text \<open>
  \<open>emits_only P m\<close>: every event \<open>m\<close> adds satisfies \<open>P\<close>; \<open>never_raises m\<close>: \<open>m\<close> returns
  a value from every history; \<open>returns_only Q m\<close>: every value \<open>m\<close> returns satisfies \<open>Q\<close>.
\<close>

definition emits_only :: "(call \<Rightarrow> bool) \<Rightarrow> 'a prog \<Rightarrow> bool" where
  "emits_only P m = (\<forall>tr. \<forall>c \<in> set (snd (m tr)). P c)"

definition never_raises :: "'a prog \<Rightarrow> bool" where
  "never_raises m = (\<forall>tr. \<exists>x. fst (m tr) = Inr x)"


text \<open>
  The selectors that layer 2 of the classifier probes in the DOM: the success indicator,
  unless it is missing, empty or treated as a URL pattern.
\<close>

definition layer2_probes :: "string option \<Rightarrow> string list" where
  "layer2_probes success_indicator =
     (case success_indicator of
        None \<Rightarrow> []
      | Some s \<Rightarrow> if s = [] \<or> prefix ''http'' s then [] else [s])"

text \<open>The logger calls, and a logger that accepts every message.\<close>

fun is_log :: "call \<Rightarrow> bool" where
  "is_log (LogInfo m) = True"
| "is_log (LogWarning m) = True"
| "is_log (LogError m) = True"
| "is_log (LogSuccess m) = True"
| "is_log (LogFailed m) = True"
| "is_log (LogSection n) = True"
| "is_log (LogProgress i t m) = True"
| "is_log (LogAttempt u n s) = True"
| "is_log (LogSummary t s f e) = True"
| "is_log c = False"

definition quiet_logger :: "env \<Rightarrow> bool" where
  "quiet_logger w = (\<forall>h c. is_log c \<longrightarrow> act w h c = None)"

text \<open>
  The four roles of the detection: the field of the result and the pattern list it is
  filled from. \<open>probed q ps\<close> are the patterns of \<open>ps\<close> up to and including the first one
  for which the DOM \<open>q\<close> has an element.
\<close>

definition roles :: "((selectors \<Rightarrow> string option) \<times> string list) list" where
  "roles = [(username_selector, username_patterns), (password_selector, password_patterns),
            (captcha_selector, captcha_patterns), (submit_selector, submit_patterns)]"

fun probed :: "(string \<Rightarrow> exn + bool) \<Rightarrow> string list \<Rightarrow> string list" where
  "probed q [] = []"
| "probed q (p # ps) = p # (if q p = Inr True then [] else probed q ps)"

text \<open>
  A scripted environment: a page at a fixed address whose DOM answers each selector by
  \<open>page_dom\<close>, an OCR engine that reads \<open>text\<close>, calls that fail as \<open>fails\<close> says, and a stop
  flag that follows \<open>running\<close>; user names are ASCII and the screenshot directory is a
  plain name, so that \<open>str.isalnum\<close> and the path join are as below.
\<close>

definition ascii_alnum :: "char \<Rightarrow> bool" where
  "ascii_alnum c = (c \<in> set ''abcdefghijklmnopqrstuvwxyzABCDEFGHIJKLMNOPQRSTUVWXYZ0123456789'')"

definition plain_join :: "string \<Rightarrow> string \<Rightarrow> string" where
  "plain_join d f = d @ ''/'' @ f"

definition scripted ::
  "string \<Rightarrow> (string \<Rightarrow> exn + bool) \<Rightarrow> string \<Rightarrow> (call \<Rightarrow> exn option) \<Rightarrow> (call list \<Rightarrow> bool)
     \<Rightarrow> env" where
  "scripted u page_dom text fails running =
     \<lparr>act = (\<lambda>h c. fails c),
      query = (\<lambda>h p. page_dom p),
      element_screenshot = (\<lambda>h s. Inr ''png''),
      classification = (\<lambda>h b. Inr text),
      page_url = (\<lambda>h. u),
      clock = (\<lambda>h. ''1700000000''),
      is_running = running,
      isalnum = ascii_alnum,
      join_path = plain_join\<rparr>"

definition elements :: "string list \<Rightarrow> string \<Rightarrow> exn + bool" where
  "elements present p = Inr (p \<in> set present)"

definition broken_dom :: "string \<Rightarrow> exn + bool" where
  "broken_dom p = Inl (OtherException ''Target closed'')"

definition flaky_dom :: "string list \<Rightarrow> string list \<Rightarrow> string \<Rightarrow> exn + bool" where
  "flaky_dom bad present p =
     (if p \<in> set bad then Inl (OtherException ''Unexpected token'') else Inr (p \<in> set present))"

definition no_failure :: "call \<Rightarrow> exn option" where
  "no_failure c = None"

definition never_stopped :: "call list \<Rightarrow> bool" where
  "never_stopped h = True"

definition login_url :: string where
  "login_url = ''http://site.test/login''"

text \<open>After submit the browser sits on a page of the same site that shows nothing.\<close>

definition blank_login_page :: env where
  "blank_login_page =
     scripted ''http://site.test/login?step=2'' (elements []) [] no_failure never_stopped"

definition dashboard_page :: env where
  "dashboard_page =
     scripted ''http://site.test/dashboard'' (elements []) [] no_failure never_stopped"

definition welcome_page :: env where
  "welcome_page = scripted login_url (elements [''#welcome-banner'']) [] no_failure never_stopped"

definition email_form_page :: env where
  "email_form_page =
     scripted login_url
       (elements [''input[name='email']'', ''input[type='email']'', ''input[type='password']''])
       [] no_failure never_stopped"

definition detached_page :: env where
  "detached_page = scripted login_url broken_dom [] no_failure never_stopped"

text \<open>
  The probe of the first username pattern and of the first password pattern raises; a
  later pattern of each of the two roles finds an element.
\<close>

definition flaky_form_page :: env where
  "flaky_form_page =
     scripted login_url
       (flaky_dom [''input[type='text'][name*='user']'', ''input[type='password']'']
                  [''input[type='email']'', ''input[name*='pass']''])
       [] no_failure never_stopped"

text \<open>A page opened from a file; nothing on it matches any probe.\<close>

definition file_url :: string where
  "file_url = ''file:///srv/app/login.html''"

definition file_page :: env where
  "file_page = scripted file_url (elements []) [] no_failure never_stopped"

text \<open>
  The calls of one attempt between \<open>new_page\<close> and \<open>close\<close> (on the page, the OCR engine
  and the logger); fill calls; OCR calls.
\<close>

fun within_page :: "call \<Rightarrow> bool" where
  "within_page NewPage = False"
| "within_page ClosePage = False"
| "within_page (Sleep d) = False"
| "within_page (LogSection n) = False"
| "within_page (LogProgress i t m) = False"
| "within_page (LogAttempt u n s) = False"
| "within_page (LogSummary t s f e) = False"
| "within_page (EmitProgress i t m) = False"
| "within_page (EmitResult r) = False"
| "within_page (EmitFinished rs) = False"
| "within_page c = True"



definition demo_automation :: BrowserAutomation where
  "demo_automation = \<lparr>timeout = 30000, screenshot_dir = ''screenshots''\<rparr>"

definition alice :: Credential where
  "alice = \<lparr>username = ''alice'', password = ''secret'', note_text = []\<rparr>"



definition explicit_selectors :: selectors where
  "explicit_selectors = \<lparr>username_selector = Some ''#user'', password_selector = Some ''#pass'',
                          captcha_selector = None, submit_selector = Some ''#go''\<rparr>"

definition captcha_selectors :: selectors where
  "captcha_selectors = \<lparr>username_selector = Some ''#user'', password_selector = Some ''#pass'',
                         captcha_selector = Some ''#captcha'', submit_selector = Some ''#go''\<rparr>"


text \<open>A form with a captcha image on which the OCR engine reads nothing.\<close>

definition captcha_page :: env where
  "captcha_page = scripted login_url (elements [''#captcha-image'']) [] no_failure never_stopped"

definition fails_on :: "call \<Rightarrow> exn \<Rightarrow> call \<Rightarrow> exn option" where
  "fails_on c e x = (if x = c then Some e else None)"



text \<open>A browser context that cannot open a page.\<close>

definition crashed_browser :: env where
  "crashed_browser =
     scripted login_url (elements []) []
       (fails_on NewPage (OtherException ''Browser has been closed'')) never_stopped"

text \<open>
  What a run looks like from outside: the attempts (each starts with its \<open>new_page\<close>)
  and the delays, in order; the results sent through the \<open>result\<close> signal; and the ideal
  course of \<open>n\<close> attempts with a delay between each two.
\<close>

fun is_sleep :: "call \<Rightarrow> bool" where
  "is_sleep (Sleep d) = True"
| "is_sleep c = False"

definition attempts_and_delays :: "call list \<Rightarrow> call list" where
  "attempts_and_delays tr = filter (\<lambda>c. c = NewPage \<or> is_sleep c) tr"

fun emitted :: "call list \<Rightarrow> LoginResult list" where
  "emitted [] = []"
| "emitted (EmitResult r # tr) = r # emitted tr"
| "emitted (c # tr) = emitted tr"










section \<open>Running the combinators\<close>

lemma after_Nil [simp]: "after [] m tr = m tr"
  by (simp add: after_def)

lemma fst_after [simp]: "fst (after d m tr) = fst (m (tr @ d))"
  by (simp add: after_def split: prod.splits)

lemma snd_after [simp]: "snd (after d m tr) = d @ snd (m (tr @ d))"
  by (simp add: after_def split: prod.splits)

lemma fst_ret [simp]: "fst (ret x tr) = Inr x"
  by (simp add: ret_def)

lemma snd_ret [simp]: "snd (ret x tr) = []"
  by (simp add: ret_def)

lemma fst_bnd:
  "fst (bnd m f tr) = (case fst (m tr) of Inl e \<Rightarrow> Inl e | Inr x \<Rightarrow> fst (f x (tr @ snd (m tr))))"
  by (simp add: bnd_def split: prod.splits sum.splits)

lemma snd_bnd:
  "snd (bnd m f tr) =
     (case fst (m tr) of Inl e \<Rightarrow> snd (m tr) | Inr x \<Rightarrow> snd (m tr) @ snd (f x (tr @ snd (m tr))))"
  by (simp add: bnd_def split: prod.splits sum.splits)

lemma fst_try_except:
  "fst (try_except m h tr) =
     (case fst (m tr) of Inl e \<Rightarrow> fst (h e (tr @ snd (m tr))) | Inr x \<Rightarrow> Inr x)"
  by (simp add: try_except_def split: prod.splits sum.splits)

lemma snd_try_except:
  "snd (try_except m h tr) =
     (case fst (m tr) of Inl e \<Rightarrow> snd (m tr) @ snd (h e (tr @ snd (m tr))) | Inr x \<Rightarrow> snd (m tr))"
  by (simp add: try_except_def split: prod.splits sum.splits)

lemma fst_try_finally:
  "fst (try_finally m fin tr) =
     (case fst (fin (tr @ snd (m tr))) of Inl e \<Rightarrow> Inl e | Inr u \<Rightarrow> fst (m tr))"
  by (simp add: try_finally_def split: prod.splits sum.splits)

lemma snd_try_finally:
  "snd (try_finally m fin tr) = snd (m tr) @ snd (fin (tr @ snd (m tr)))"
  by (simp add: try_finally_def split: prod.splits sum.splits)

lemma fst_try_else:
  "fst (try_else m f h tr) =
     (case fst (m tr) of
        Inl e \<Rightarrow> fst (h e (tr @ snd (m tr)))
      | Inr x \<Rightarrow> fst (f x (tr @ snd (m tr))))"
  by (simp add: try_else_def split: prod.splits sum.splits)

lemma snd_try_else:
  "snd (try_else m f h tr) =
     (case fst (m tr) of
        Inl e \<Rightarrow> snd (m tr) @ snd (h e (tr @ snd (m tr)))
      | Inr x \<Rightarrow> snd (m tr) @ snd (f x (tr @ snd (m tr))))"
  by (simp add: try_else_def split: prod.splits sum.splits)

lemma bnd_Inr: "m tr = (Inr x, d) \<Longrightarrow> bnd m f tr = after d (f x) tr"
  by (simp add: bnd_def)

lemma bnd_Inl: "m tr = (Inl e, d) \<Longrightarrow> bnd m f tr = (Inl e, d)"
  by (simp add: bnd_def)

lemma bnd_ret [simp]: "bnd (ret x) f tr = f x tr"
  by (simp add: bnd_def ret_def)

lemma try_except_Inr: "fst (m tr) = Inr x \<Longrightarrow> try_except m h tr = m tr"
  by (cases "m tr") (simp add: try_except_def)

lemma run_eq: "fst p = r \<Longrightarrow> p = (r, snd p)"
  by (cases p) simp

lemma fst_perform: "fst (perform w c tr) = (case act w tr c of None \<Rightarrow> Inr () | Some e \<Rightarrow> Inl e)"
  by (simp add: perform_def split: option.splits)

lemma snd_perform [simp]: "snd (perform w c tr) = [c]"
  by (simp add: perform_def split: option.splits)

lemma fst_emit [simp]: "fst (emit c tr) = Inr ()"
  by (simp add: emit_def)

lemma snd_emit [simp]: "snd (emit c tr) = [c]"
  by (simp add: emit_def)

lemma fst_query [simp]: "fst (query_selector w p tr) = query w tr p"
  by (simp add: query_selector_def)

lemma snd_query [simp]: "snd (query_selector w p tr) = [QuerySelector p]"
  by (simp add: query_selector_def)

lemma bnd_query:
  "bnd (query_selector w p) f tr =
     (case query w tr p of
        Inl e \<Rightarrow> (Inl e, [QuerySelector p])
      | Inr b \<Rightarrow> after [QuerySelector p] (f b) tr)"
  by (simp add: bnd_def query_selector_def split: sum.splits)

subsection \<open>Which events a computation can emit\<close>

lemma emits_onlyD: "emits_only P m \<Longrightarrow> c \<in> set (snd (m tr)) \<Longrightarrow> P c"
  by (simp add: emits_only_def)

lemma emits_only_ret: "emits_only P (ret x)"
  by (simp add: emits_only_def)

lemma emits_only_bnd:
  "emits_only P m \<Longrightarrow> (\<And>x. emits_only P (f x)) \<Longrightarrow> emits_only P (bnd m f)"
  by (auto simp: emits_only_def snd_bnd split: sum.splits)

lemma emits_only_try_except:
  "emits_only P m \<Longrightarrow> (\<And>e. emits_only P (h e)) \<Longrightarrow> emits_only P (try_except m h)"
  by (auto simp: emits_only_def snd_try_except split: sum.splits)

lemma emits_only_try_else:
  "emits_only P m \<Longrightarrow> (\<And>x. emits_only P (f x)) \<Longrightarrow> (\<And>e. emits_only P (h e)) \<Longrightarrow>
   emits_only P (try_else m f h)"
  by (auto simp: emits_only_def snd_try_else split: sum.splits)

lemma emits_only_try_finally:
  "emits_only P m \<Longrightarrow> emits_only P fin \<Longrightarrow> emits_only P (try_finally m fin)"
  by (auto simp: emits_only_def snd_try_finally)

lemma emits_only_perform: "P c \<Longrightarrow> emits_only P (perform w c)"
  by (simp add: emits_only_def)

lemma emits_only_emit: "P c \<Longrightarrow> emits_only P (emit c)"
  by (simp add: emits_only_def)

lemma emits_only_query: "P (QuerySelector p) \<Longrightarrow> emits_only P (query_selector w p)"
  by (simp add: emits_only_def)

lemma emits_only_if:
  "(b \<Longrightarrow> emits_only P m) \<Longrightarrow> (\<not> b \<Longrightarrow> emits_only P n) \<Longrightarrow> emits_only P (if b then m else n)"
  by simp

subsection \<open>Which computations cannot raise\<close>

lemma never_raises_ret: "never_raises (ret x)"
  by (simp add: never_raises_def)

lemma never_raises_emit: "never_raises (emit c)"
  by (simp add: never_raises_def)

lemma never_raises_perform: "\<forall>h. act w h c = None \<Longrightarrow> never_raises (perform w c)"
  by (simp add: never_raises_def fst_perform)

lemma never_raises_log: "quiet_logger w \<Longrightarrow> is_log c \<Longrightarrow> never_raises (perform w c)"
  by (simp add: never_raises_def fst_perform quiet_logger_def)

lemma never_raises_bnd:
  assumes m: "never_raises m" and f: "\<And>x. never_raises (f x)"
  shows "never_raises (bnd m f)"
  unfolding never_raises_def
proof
  fix tr
  from m obtain x where x: "fst (m tr) = Inr x"
    by (auto simp: never_raises_def)
  from f [of x] obtain y where "fst (f x (tr @ snd (m tr))) = Inr y"
    by (auto simp: never_raises_def)
  with x show "\<exists>y. fst (bnd m f tr) = Inr y"
    by (simp add: fst_bnd)
qed

lemma never_raises_try_except:
  assumes h: "\<And>e. never_raises (h e)"
  shows "never_raises (try_except m h)"
  unfolding never_raises_def
proof
  fix tr
  show "\<exists>y. fst (try_except m h tr) = Inr y"
  proof (cases "fst (m tr)")
    case (Inl e)
    from h [of e] obtain y where "fst (h e (tr @ snd (m tr))) = Inr y"
      by (auto simp: never_raises_def)
    with Inl show ?thesis by (simp add: fst_try_except)
  next
    case (Inr x)
    then show ?thesis by (simp add: fst_try_except)
  qed
qed

lemma never_raises_try_else:
  assumes m: "never_raises m" and f: "\<And>x. never_raises (f x)"
  shows "never_raises (try_else m f h)"
  unfolding never_raises_def
proof
  fix tr
  from m obtain x where x: "fst (m tr) = Inr x"
    by (auto simp: never_raises_def)
  from f [of x] obtain y where "fst (f x (tr @ snd (m tr))) = Inr y"
    by (auto simp: never_raises_def)
  with x show "\<exists>y. fst (try_else m f h tr) = Inr y"
    by (simp add: fst_try_else)
qed

lemma never_raises_guarded:
  assumes m: "never_raises m"
  shows "never_raises (try_except m h)"
  unfolding never_raises_def
proof
  fix tr
  from m obtain x where "fst (m tr) = Inr x"
    by (auto simp: never_raises_def)
  then show "\<exists>y. fst (try_except m h tr) = Inr y"
    by (simp add: fst_try_except)
qed


section \<open>The classifier\<close>

lemma probe_any_absent:
  "\<forall>h. \<forall>p \<in> set ps. query w h p = Inr False \<Longrightarrow>
   probe_any w ps tr = (Inr False, map QuerySelector ps)"
proof (induction ps arbitrary: tr)
  case Nil
  then show ?case by (simp add: ret_def)
next
  case (Cons p ps)
  then show ?case by (simp add: bnd_query after_def)
qed

lemma bnd_probe_any_absent:
  "\<forall>h. \<forall>p \<in> set ps. query w h p = Inr False \<Longrightarrow>
   bnd (probe_any w ps) f tr = after (map QuerySelector ps) (f False) tr"
  by (simp add: bnd_def probe_any_absent)

lemma indicator_undecided:
  assumes "\<forall>s. success_indicator = Some s \<and> prefix ''http'' s \<longrightarrow> \<not> sublist s u"
    and "\<forall>h. \<forall>p \<in> set (layer2_probes success_indicator). query w h p = Inr False"
  shows "indicator_matches w u success_indicator tr
           = (Inr False, map QuerySelector (layer2_probes success_indicator))"
  using assms
  by (auto simp: indicator_matches_def layer2_probes_def ret_def query_selector_def
      split: option.splits)

lemma verify_never_raises:
  "quiet_logger w \<Longrightarrow> never_raises (verify_login_success w original_url success_indicator)"
  unfolding verify_login_success_def
  by (intro never_raises_try_except never_raises_bnd never_raises_ret never_raises_log) simp_all

text \<open>
  C1. When the current URL differs from the original one and its lower-cased form
  contains none of \<open>error\<close>, \<open>login\<close>, \<open>signin\<close>, the classifier answers SUCCESS at once:
  for every success indicator and every DOM, and without a single probe of the page.
\<close>

theorem verify_url_change_first:
  assumes "page_url w tr \<noteq> original_url" and "\<not> has_error_token (page_url w tr)"
  shows "verify_login_success w original_url success_indicator tr = (Inr True, [])"
  using assms by (simp add: verify_login_success_def try_except_def verify_steps_def ret_def)

theorem verify_url_change_first_witness:
  "verify_login_success dashboard_page login_url (Some ''#never-there'') [] = (Inr True, [])"
proof -
  have 1: "page_url dashboard_page [] \<noteq> login_url"
    by code_simp
  have 2: "\<not> has_error_token (page_url dashboard_page [])"
    by code_simp
  show ?thesis
    by (rule verify_url_change_first [OF 1 2])
qed

text \<open>
  C7, as amended. With the URL unchanged, a supplied (non-empty) success indicator that
  matches makes the classifier answer SUCCESS: an indicator that starts with \<open>http\<close>
  matches as a substring of the current URL, any other one matches when the DOM probe
  for it finds an element.
\<close>

theorem verify_indicator_same_url:
  assumes "page_url w tr = original_url" and "s \<noteq> []"
    and "if prefix ''http'' s then sublist s (page_url w tr) else query w tr s = Inr True"
  shows "fst (verify_login_success w original_url (Some s) tr) = Inr True"
  using assms
  by (simp add: verify_login_success_def try_except_def verify_steps_def later_layers_def
      indicator_matches_def bnd_query after_def ret_def split: if_splits)

theorem verify_indicator_same_url_witness:
  "fst (verify_login_success welcome_page login_url (Some ''#welcome-banner'') []) = Inr True"
proof -
  have 1: "page_url welcome_page [] = login_url"
    by (simp add: welcome_page_def scripted_def)
  have 2: "''#welcome-banner'' \<noteq> []"
    by simp
  have 3: "if prefix ''http'' ''#welcome-banner''
           then sublist ''#welcome-banner'' (page_url welcome_page [])
           else query welcome_page [] ''#welcome-banner'' = Inr True"
    by (simp add: welcome_page_def scripted_def elements_def)
  show ?thesis
    by (rule verify_indicator_same_url [OF 1 2 3])
qed

text \<open>
  C7, as stated, fails for an address scheme other than \<open>http\<close>: the page was opened
  from a file and stays at its address, and the indicator \<open>file:///srv/app/\<close> is a
  substring of that address. The code treats this indicator as a selector, the probe for
  it finds nothing, no other layer decides, and the classifier answers FAILED.
\<close>

theorem indicator_scheme_counterexample:
  "page_url file_page [] = file_url
   \<and> sublist ''file:///srv/app/'' (page_url file_page [])
   \<and> fst (verify_login_success file_page file_url (Some ''file:///srv/app/'') []) = Inr False"
  by code_simp

text \<open>
  C2, as amended. When layers 1 to 4 decide nothing (the URL is unchanged or carries a
  token, the indicator does not match, no error or success pattern finds an element), the
  answer is SUCCESS exactly when the probe for a username-shaped field finds nothing and
  the current URL differs from the original one; the token test of layer 1 is not
  repeated. If that last probe raises, the answer is FAILED once the error is logged.
\<close>

theorem residual_layer_url_change:
  assumes l1: "page_url w tr = original_url \<or> has_error_token (page_url w tr)"
    and l2: "\<forall>s. success_indicator = Some s \<and> prefix ''http'' s \<longrightarrow> \<not> sublist s (page_url w tr)"
    and absent: "\<forall>h. \<forall>p \<in> set (layer2_probes success_indicator @ error_patterns @ success_patterns).
                   query w h p = Inr False"
  shows "fst (verify_login_success w original_url success_indicator tr) =
           (case query w (tr @ map QuerySelector
                                 (layer2_probes success_indicator @ error_patterns @ success_patterns))
                       username_field_pattern of
              Inr username_field \<Rightarrow> Inr (\<not> username_field \<and> page_url w tr \<noteq> original_url)
            | Inl e \<Rightarrow>
                (case act w (tr @ map QuerySelector
                                    (layer2_probes success_indicator @ error_patterns
                                       @ success_patterns @ [username_field_pattern]))
                          (LogError (''Error verifying login success: '' @ exn_str e)) of
                   None \<Rightarrow> Inr False
                 | Some e' \<Rightarrow> Inl e'))"
proof -
  have a2: "\<forall>h. \<forall>p \<in> set (layer2_probes success_indicator). query w h p = Inr False"
    and a3: "\<forall>h. \<forall>p \<in> set error_patterns. query w h p = Inr False"
    and a4: "\<forall>h. \<forall>p \<in> set success_patterns. query w h p = Inr False"
    using absent by auto
  have i: "indicator_matches w (page_url w tr) success_indicator tr
             = (Inr False, map QuerySelector (layer2_probes success_indicator))"
    by (rule indicator_undecided [OF l2 a2])
  have ll: "later_layers w (page_url w tr) original_url success_indicator tr
              = after (map QuerySelector (layer2_probes success_indicator @ error_patterns
                                            @ success_patterns))
                  (bnd (query_selector w username_field_pattern) (\<lambda>username_field.
                     if username_field then ret False
                     else ret (page_url w tr \<noteq> original_url))) tr"
    by (simp add: later_layers_def bnd_Inr [of "indicator_matches _ _ _", OF i]
        bnd_probe_any_absent [OF a3] bnd_probe_any_absent [OF a4] after_def split: prod.splits)
  have vs: "verify_steps w original_url success_indicator tr
              = later_layers w (page_url w tr) original_url success_indicator tr"
    using l1 by (auto simp: verify_steps_def Let_def)
  show ?thesis
    by (simp add: verify_login_success_def fst_try_except snd_try_except fst_bnd snd_bnd vs ll
        fst_perform split: sum.splits option.splits)
qed

theorem residual_layer_url_change_witness:
  "fst (verify_login_success blank_login_page login_url None []) = Inr True"
proof -
  have 1: "page_url blank_login_page [] = login_url \<or> has_error_token (page_url blank_login_page [])"
    by code_simp
  have 2: "\<forall>s. None = Some s \<and> prefix ''http'' s \<longrightarrow> \<not> sublist s (page_url blank_login_page [])"
    by simp
  have 3: "\<forall>h. \<forall>p \<in> set (layer2_probes None @ error_patterns @ success_patterns).
             query blank_login_page h p = Inr False"
    by (simp add: blank_login_page_def scripted_def elements_def)
  show ?thesis
    using residual_layer_url_change [OF 1 2 3]
    by (simp add: blank_login_page_def scripted_def elements_def login_url_def)
qed

text \<open>
  C2, as stated, fails: the browser went from \<open>/login\<close> to \<open>/login?step=2\<close>, a page on
  which every probe finds nothing. Layers 1 to 4 decide nothing and there is no username
  field; the URL-change test of step 1 is false (the URL contains \<open>login\<close>), yet the
  classifier answers SUCCESS.
\<close>

theorem residual_layer_counterexample:
  "fst (verify_login_success blank_login_page login_url None [])
     \<noteq> Inr (page_url blank_login_page [] \<noteq> login_url
            \<and> \<not> has_error_token (page_url blank_login_page []))"
  by code_simp


section \<open>Form detection\<close>

lemma first_match_never_raises: "never_raises (first_match w ps)"
proof (induction ps)
  case Nil
  show ?case by (simp add: never_raises_def)
next
  case (Cons p ps)
  have "never_raises (bnd (try_except (query_selector w p) (\<lambda>e. ret False))
         (\<lambda>element. if element then ret (Some p) else first_match w ps))"
    by (intro never_raises_bnd never_raises_try_except never_raises_ret)
       (simp add: never_raises_ret Cons)
  then show ?case by (simp add: never_raises_def)
qed

lemma first_match_emits: "(\<And>p. P (QuerySelector p)) \<Longrightarrow> emits_only P (first_match w ps)"
proof (induction ps)
  case Nil
  show ?case by (simp add: emits_only_def)
next
  case (Cons p ps)
  have "emits_only P (bnd (try_except (query_selector w p) (\<lambda>e. ret False))
         (\<lambda>element. if element then ret (Some p) else first_match w ps))"
    by (intro emits_only_bnd emits_only_try_except emits_only_ret emits_only_query
        emits_only_if Cons)
  then show ?case by (simp add: emits_only_def)
qed

lemma first_match_find:
  assumes "\<forall>h p. query w h p = q p"
  shows "fst (first_match w ps tr) = Inr (find (\<lambda>p. q p = Inr True) ps)"
proof (induction ps arbitrary: tr)
  case Nil
  show ?case by simp
next
  case (Cons p ps)
  show ?case
  proof (cases "q p")
    case (Inl e)
    with assms Cons show ?thesis by (simp add: fst_bnd fst_try_except)
  next
    case (Inr b)
    with assms Cons show ?thesis by (simp add: fst_bnd fst_try_except)
  qed
qed

lemma first_match_probes:
  assumes "\<forall>h p. query w h p = q p"
  shows "snd (first_match w ps tr) = map QuerySelector (probed q ps)"
proof (induction ps arbitrary: tr)
  case Nil
  show ?case by simp
next
  case (Cons p ps)
  show ?case
  proof (cases "q p")
    case (Inl e)
    with assms Cons show ?thesis
      by (simp add: fst_bnd snd_bnd fst_try_except snd_try_except)
  next
    case (Inr b)
    with assms Cons show ?thesis
      by (simp add: fst_bnd snd_bnd fst_try_except snd_try_except)
  qed
qed

lemma first_match_all_raise:
  assumes "\<forall>h p. \<exists>e. query w h p = Inl e"
  shows "fst (first_match w ps tr) = Inr None"
proof (induction ps arbitrary: tr)
  case Nil
  show ?case by simp
next
  case (Cons p ps)
  from assms obtain e where "query w tr p = Inl e" by blast
  with Cons show ?case by (simp add: fst_bnd fst_try_except)
qed

lemma detect_login_form_fst:
  assumes u: "\<And>h. fst (first_match w username_patterns h) = Inr u"
    and p: "\<And>h. fst (first_match w password_patterns h) = Inr p"
    and c: "\<And>h. fst (first_match w captcha_patterns h) = Inr c"
    and s: "\<And>h. fst (first_match w submit_patterns h) = Inr s"
  shows "fst (detect_login_form w tr) =
           Inr \<lparr>username_selector = u, password_selector = p,
                captcha_selector = c, submit_selector = s\<rparr>"
  by (simp add: detect_login_form_def Let_def fst_try_else u p c s)

lemma detect_login_form_snd:
  assumes "\<forall>h p. query w h p = q p"
  shows "snd (detect_login_form w tr) =
           map QuerySelector (probed q username_patterns @ probed q password_patterns
                              @ probed q captcha_patterns @ probed q submit_patterns)"
  by (simp add: detect_login_form_def Let_def fst_try_else snd_try_else
      first_match_find [OF assms] first_match_probes [OF assms])

lemma detect_login_form_never_raises: "never_raises (detect_login_form w)"
  unfolding detect_login_form_def Let_def
  by (intro never_raises_try_else first_match_never_raises never_raises_ret)

lemma find_drop:
  "i < length ps \<Longrightarrow> \<forall>j \<le> i. \<not> P (ps ! j) \<Longrightarrow> find P ps = find P (drop (Suc i) ps)"
proof (induction ps arbitrary: i)
  case Nil
  then show ?case by simp
next
  case (Cons p ps)
  from Cons.prems(2) have p: "\<not> P p"
    by (auto dest: spec [of _ 0])
  show ?case
  proof (cases i)
    case 0
    with p show ?thesis by simp
  next
    case (Suc k)
    with Cons.prems have "k < length ps" and "\<forall>j \<le> k. \<not> P (ps ! j)"
      by auto
    from Cons.IH [OF this] p Suc show ?thesis by simp
  qed
qed

lemma probed_next:
  "Suc i < length ps \<Longrightarrow> \<forall>j \<le> i. q (ps ! j) \<noteq> Inr True \<Longrightarrow> ps ! Suc i \<in> set (probed q ps)"
proof (induction ps arbitrary: i)
  case Nil
  then show ?case by simp
next
  case (Cons p ps)
  from Cons.prems(2) have p: "q p \<noteq> Inr True"
    by (auto dest: spec [of _ 0])
  show ?case
  proof (cases i)
    case 0
    with p Cons.prems(1) show ?thesis
      by (cases ps) simp_all
  next
    case (Suc k)
    with Cons.prems have "Suc k < length ps" and "\<forall>j \<le> k. q (ps ! j) \<noteq> Inr True"
      by auto
    from Cons.IH [OF this] p Suc show ?thesis by simp
  qed
qed

text \<open>
  C4. On a page whose DOM answers each selector the same way throughout the detection,
  every role gets the first pattern of its own fixed list whose probe finds an element
  (\<^const>\<open>find\<close> returns the earliest such entry, so of two matching patterns the earlier
  one is returned), and each role's result is determined by that role's list alone.
\<close>

theorem detect_returns_first_match:
  assumes "\<forall>h p. query w h p = q p"
  shows "fst (detect_login_form w tr) =
           Inr \<lparr>username_selector = find (\<lambda>p. q p = Inr True) username_patterns,
                password_selector = find (\<lambda>p. q p = Inr True) password_patterns,
                captcha_selector = find (\<lambda>p. q p = Inr True) captcha_patterns,
                submit_selector = find (\<lambda>p. q p = Inr True) submit_patterns\<rparr>"
  by (rule detect_login_form_fst) (simp_all add: first_match_find [OF assms])

theorem detect_returns_first_match_witness:
  "fst (detect_login_form email_form_page []) =
     Inr \<lparr>username_selector = Some ''input[type='email']'',
          password_selector = Some ''input[type='password']'',
          captcha_selector = None, submit_selector = None\<rparr>"
proof -
  have 1: "\<forall>h p. query email_form_page h p
             = elements [''input[name='email']'', ''input[type='email']'', ''input[type='password']''] p"
    by (simp add: email_form_page_def scripted_def)
  show ?thesis
    using detect_returns_first_match [OF 1, of "[]"]
    by (simp add: elements_def username_patterns_def password_patterns_def captcha_patterns_def
        submit_patterns_def sq_def zh_user_def zh_account_def zh_mailbox_def zh_password_def
        zh_captcha_def zh_login_def zh_login_trad_def)
qed

text \<open>
  C8. \<open>detect_login_form\<close> returns a selector map from every history of every
  environment. On a page whose DOM answers each selector the same way throughout the
  detection: when the probe of a pattern raises and no earlier pattern of its role found
  an element, the next pattern of that role is probed and the role gets what the rest of
  its list finds. When every probe raises, all four roles are absent.
\<close>

theorem detect_never_raises:
  "(\<exists>sel. fst (detect_login_form w tr) = Inr sel)
   \<and> ((\<forall>h p. query w h p = q p) \<longrightarrow>
        (\<forall>(field, ps) \<in> set roles. \<forall>i < length ps.
           (\<exists>e. q (ps ! i) = Inl e) \<and> (\<forall>j < i. q (ps ! j) \<noteq> Inr True) \<longrightarrow>
           (\<exists>sel. fst (detect_login_form w tr) = Inr sel
                \<and> field sel = find (\<lambda>p. q p = Inr True) (drop (Suc i) ps))
           \<and> (Suc i < length ps \<longrightarrow>
                QuerySelector (ps ! Suc i) \<in> set (snd (detect_login_form w tr)))))
   \<and> ((\<forall>h p. \<exists>e. query w h p = Inl e) \<longrightarrow>
         fst (detect_login_form w tr) =
           Inr \<lparr>username_selector = None, password_selector = None,
                captcha_selector = None, submit_selector = None\<rparr>)"
proof (intro conjI impI)
  show "\<exists>sel. fst (detect_login_form w tr) = Inr sel"
    using detect_login_form_never_raises [of w] by (simp add: never_raises_def)
next
  assume snap: "\<forall>h p. query w h p = q p"
  let ?P = "\<lambda>p. q p = Inr True"
  have res: "fst (detect_login_form w tr) =
           Inr \<lparr>username_selector = find ?P username_patterns,
                password_selector = find ?P password_patterns,
                captcha_selector = find ?P captcha_patterns,
                submit_selector = find ?P submit_patterns\<rparr>"
    by (rule detect_login_form_fst) (simp_all add: first_match_find [OF snap])
  note ev = detect_login_form_snd [OF snap, of tr]
  have skip: "find ?P ps = find ?P (drop (Suc i) ps)
              \<and> (Suc i < length ps \<longrightarrow> ps ! Suc i \<in> set (probed q ps))"
    if i: "i < length ps" and e: "\<exists>e. q (ps ! i) = Inl e"
      and before: "\<forall>j < i. q (ps ! j) \<noteq> Inr True" for ps i
  proof -
    have upto: "\<forall>j \<le> i. q (ps ! j) \<noteq> Inr True"
    proof (intro allI impI)
      fix j assume "j \<le> i"
      then consider "j < i" | "j = i" by linarith
      then show "q (ps ! j) \<noteq> Inr True"
        using before e by cases auto
    qed
    from find_drop [OF i, of ?P] upto probed_next [of i ps q] show ?thesis
      by auto
  qed
  show "\<forall>(field, ps) \<in> set roles. \<forall>i < length ps.
           (\<exists>e. q (ps ! i) = Inl e) \<and> (\<forall>j < i. q (ps ! j) \<noteq> Inr True) \<longrightarrow>
           (\<exists>sel. fst (detect_login_form w tr) = Inr sel
                \<and> field sel = find ?P (drop (Suc i) ps))
           \<and> (Suc i < length ps \<longrightarrow>
                QuerySelector (ps ! Suc i) \<in> set (snd (detect_login_form w tr)))"
    using skip by (auto simp: roles_def res ev)
next
  assume a: "\<forall>h p. \<exists>e. query w h p = Inl e"
  show "fst (detect_login_form w tr) =
           Inr \<lparr>username_selector = None, password_selector = None,
                captcha_selector = None, submit_selector = None\<rparr>"
    by (rule detect_login_form_fst) (simp_all add: first_match_all_raise [OF a])
qed


theorem detect_never_raises_witness:
  "(\<exists>sel. fst (detect_login_form flaky_form_page []) = Inr sel
         \<and> username_selector sel = Some ''input[type='email']'')
   \<and> QuerySelector ''input[type='text'][name*='login']''
        \<in> set (snd (detect_login_form flaky_form_page []))
   \<and> fst (detect_login_form detached_page []) =
       Inr \<lparr>username_selector = None, password_selector = None,
            captcha_selector = None, submit_selector = None\<rparr>"
proof -
  let ?q = "flaky_dom [''input[type='text'][name*='user']'', ''input[type='password']'']
                      [''input[type='email']'', ''input[name*='pass']'']"
  have 1: "\<forall>h p. query flaky_form_page h p = ?q p"
    by (simp add: flaky_form_page_def scripted_def)
  have 2: "\<forall>h p. \<exists>e. query detached_page h p = Inl e"
    by (simp add: detached_page_def scripted_def broken_dom_def)
  have r: "(username_selector, username_patterns) \<in> set roles"
    by (simp add: roles_def)
  have i: "0 < length username_patterns"
    by (simp add: username_patterns_def)
  have e: "(\<exists>e. ?q (username_patterns ! 0) = Inl e)
           \<and> (\<forall>j < 0. ?q (username_patterns ! j) \<noteq> Inr True)"
    by (simp add: username_patterns_def flaky_dom_def)
  have n: "Suc 0 < length username_patterns"
    by (simp add: username_patterns_def)
  note t = detect_never_raises [where w = flaky_form_page and tr = "[]" and q = ?q]
  from t 1 have "\<forall>(field, ps) \<in> set roles. \<forall>i < length ps.
           (\<exists>e. ?q (ps ! i) = Inl e) \<and> (\<forall>j < i. ?q (ps ! j) \<noteq> Inr True) \<longrightarrow>
           (\<exists>sel. fst (detect_login_form flaky_form_page []) = Inr sel
                \<and> field sel = find (\<lambda>p. ?q p = Inr True) (drop (Suc i) ps))
           \<and> (Suc i < length ps \<longrightarrow>
                QuerySelector (ps ! Suc i) \<in> set (snd (detect_login_form flaky_form_page [])))"
    by blast
  from bspec [OF this r] i e n
  have a: "(\<exists>sel. fst (detect_login_form flaky_form_page []) = Inr sel
                \<and> username_selector sel
                    = find (\<lambda>p. ?q p = Inr True) (drop (Suc 0) username_patterns))
           \<and> QuerySelector (username_patterns ! Suc 0)
                \<in> set (snd (detect_login_form flaky_form_page []))"
    by auto
  have f: "find (\<lambda>p. ?q p = Inr True) (drop (Suc 0) username_patterns)
             = Some ''input[type='email']''"
    by (simp add: username_patterns_def flaky_dom_def)
  have g: "username_patterns ! Suc 0 = ''input[type='text'][name*='login']''"
    by (simp add: username_patterns_def)
  from detect_never_raises [where w = detached_page and tr = "[]" and q = ?q] 2
  have b: "fst (detect_login_form detached_page []) =
       Inr \<lparr>username_selector = None, password_selector = None,
            captcha_selector = None, submit_selector = None\<rparr>"
    by blast
  show ?thesis
    using a b by (simp add: f g)
qed

section \<open>One attempt\<close>

lemma emits_only_case_option:
  "emits_only P m \<Longrightarrow> (\<And>y. emits_only P (f y)) \<Longrightarrow>
   emits_only P (case x of None \<Rightarrow> m | Some y \<Rightarrow> f y)"
  by (cases x) simp_all

lemma emits_only_case_prod:
  "(\<And>a b. emits_only P (f a b)) \<Longrightarrow> emits_only P (case x of (a, b) \<Rightarrow> f a b)"
  by (cases x) simp

lemma emits_only_case_exn:
  "(\<And>m. emits_only P (f m)) \<Longrightarrow> (\<And>m. emits_only P (g m)) \<Longrightarrow>
   emits_only P (case e of PlaywrightTimeout m \<Rightarrow> f m | OtherException m \<Rightarrow> g m)"
  by (cases e) simp_all

lemmas emits_intros =
  emits_only_ret emits_only_bnd emits_only_try_except emits_only_try_else emits_only_try_finally
  emits_only_perform emits_only_emit emits_only_query emits_only_if
  emits_only_case_option emits_only_case_prod emits_only_case_exn



subsection \<open>Events of the parts\<close>

lemma probe_any_emits: "(\<And>p. P (QuerySelector p)) \<Longrightarrow> emits_only P (probe_any w ps)"
proof (induction ps)
  case Nil
  show ?case by (simp add: emits_only_def)
next
  case (Cons p ps)
  have "emits_only P (bnd (query_selector w p) (\<lambda>element. if element then ret True else probe_any w ps))"
    by (intro emits_intros Cons)
  then show ?case by (simp add: emits_only_def)
qed

lemma find_image_emits: "(\<And>p. P (QuerySelector p)) \<Longrightarrow> emits_only P (find_image w ps)"
proof (induction ps)
  case Nil
  show ?case by (simp add: emits_only_def)
next
  case (Cons p ps)
  have "emits_only P (bnd (query_selector w p)
          (\<lambda>captcha_element. if captcha_element then ret (Some p) else find_image w ps))"
    by (intro emits_intros Cons)
  then show ?case by (simp add: emits_only_def)
qed

lemma verify_emits:
  assumes "\<And>p. P (QuerySelector p)" "\<And>m. P (LogError m)"
  shows "emits_only P (verify_login_success w original_url success_indicator)"
proof -
  have l: "emits_only P (later_layers w u original_url success_indicator)" for u
    unfolding later_layers_def indicator_matches_def
    by (intro emits_intros probe_any_emits assms)
  have v: "emits_only P (verify_steps w original_url success_indicator)"
    unfolding emits_only_def
  proof (intro allI ballI)
    fix tr c
    assume "c \<in> set (snd (verify_steps w original_url success_indicator tr))"
    then show "P c"
      using emits_onlyD [OF l, of c "page_url w tr" tr]
      by (simp add: verify_steps_def Let_def split: if_splits)
  qed
  show ?thesis
    unfolding verify_login_success_def by (intro emits_intros v assms)
qed

lemma detect_emits:
  assumes "\<And>p. P (QuerySelector p)" "\<And>m. P (LogError m)"
  shows "emits_only P (detect_login_form w)"
  unfolding detect_login_form_def detect_failed_def Let_def
  by (intro emits_intros first_match_emits assms)

lemma resolve_emits:
  assumes "\<And>p. P (QuerySelector p)" "\<And>m. P (LogError m)"
  shows "emits_only P (resolve_selectors w given)"
  unfolding resolve_selectors_def
  by (intro emits_intros detect_emits assms)

lemma open_and_resolve_emits:
  assumes "\<And>p. P (QuerySelector p)" "\<And>m. P (LogError m)" "\<And>m. P (LogInfo m)"
    "\<And>t. P (SetDefaultTimeout t)" "\<And>u. P (Goto u)" "\<And>t. P (WaitForLoadState t)"
  shows "emits_only P (open_and_resolve w self target given)"
  unfolding open_and_resolve_def
  by (intro emits_intros resolve_emits assms)

lemma save_screenshot_run:
  "save_screenshot w self user sfx h =
     (case act w h (PageScreenshot (screenshot_file w (screenshot_dir self) user (clock w h) sfx)) of
        None \<Rightarrow>
          (Inr (screenshot_file w (screenshot_dir self) user (clock w h) sfx),
           [PageScreenshot (screenshot_file w (screenshot_dir self) user (clock w h) sfx)])
      | Some e \<Rightarrow>
          ((case act w (h @ [PageScreenshot (screenshot_file w (screenshot_dir self) user
                                                (clock w h) sfx)])
                      (LogError (''Failed to save screenshot: '' @ exn_str e)) of
              None \<Rightarrow> Inr [] | Some e' \<Rightarrow> Inl e'),
           [PageScreenshot (screenshot_file w (screenshot_dir self) user (clock w h) sfx),
            LogError (''Failed to save screenshot: '' @ exn_str e)]))"
  by (simp add: save_screenshot_def Let_def try_except_def bnd_def perform_def after_def ret_def
      split: option.splits)

lemma save_screenshot_emits:
  "(\<And>f. P (PageScreenshot f)) \<Longrightarrow> (\<And>m. P (LogError m)) \<Longrightarrow>
   emits_only P (save_screenshot w self user sfx)"
  by (simp add: emits_only_def save_screenshot_run split: option.splits)



lemma get_captcha_image_emits:
  assumes "\<And>p. P (QuerySelector p)" "\<And>s. P (ElementScreenshot s)"
    "\<And>m. P (LogWarning m)" "\<And>m. P (LogError m)"
  shows "emits_only P (get_captcha_image w sel)"
proof -
  have "emits_only P (screenshot_element w s)" for s
    by (simp add: emits_only_def screenshot_element_def assms)
  then show ?thesis
    unfolding get_captcha_image_def image_not_found_def
    by (intro emits_intros find_image_emits assms)
qed


lemma solve_from_bytes_emits:
  assumes "\<And>b. P (Classification b)" "\<And>m. P (LogError m)"
  shows "emits_only P (solve_from_bytes w b)"
proof -
  have "emits_only P (classify_image w b)"
    by (simp add: emits_only_def classify_image_def assms)
  then show ?thesis
    unfolding solve_from_bytes_def by (intro emits_intros assms)
qed

lemma solve_captcha_emits:
  assumes "\<And>p. P (QuerySelector p)" "\<And>s. P (ElementScreenshot s)" "\<And>b. P (Classification b)"
    "\<And>m. P (LogInfo m)" "\<And>m. P (LogWarning m)" "\<And>m. P (LogError m)"
  shows "emits_only P (solve_captcha w sel)"
  unfolding solve_captcha_def
  by (intro emits_intros get_captcha_image_emits solve_from_bytes_emits assms)

lemma solve_captcha_never_raises: "quiet_logger w \<Longrightarrow> never_raises (solve_captcha w sel)"
  unfolding solve_captcha_def
  by (intro never_raises_try_except never_raises_bnd never_raises_ret never_raises_log) simp_all


lemma on_exception_emits:
  "(\<And>f. P (PageScreenshot f)) \<Longrightarrow> (\<And>m. P (LogError m)) \<Longrightarrow>
   emits_only P (on_exception w self page cred target e)"
  unfolding on_exception_def
  by (intro emits_intros save_screenshot_emits)

lemma login_steps_emits:
  assumes "\<And>c. within_page c \<Longrightarrow> P c"
  shows "emits_only P (login_steps w self target cred success_indicator wait_after_submit sel)"
  unfolding login_steps_def fill_credentials_def handle_captcha_def captcha_failed_def
    submit_and_classify_def
  by (intro emits_intros save_screenshot_emits solve_captcha_emits verify_emits assms) simp_all

lemma attempt_body_emits:
  assumes "\<And>c. within_page c \<Longrightarrow> P c"
  shows "emits_only P (try_except
                  (bnd (open_and_resolve w self target given)
                       (login_steps w self target cred success_indicator wait_after_submit))
                  (on_exception w self True cred target))"
  by (intro emits_intros open_and_resolve_emits login_steps_emits on_exception_emits assms) simp_all


lemma attempt_login_opened:
  "act w tr NewPage = None \<Longrightarrow>
   attempt_login w self target cred given success_indicator wait_after_submit tr =
     after [NewPage]
       (try_finally
          (try_except
             (bnd (open_and_resolve w self target given)
                  (login_steps w self target cred success_indicator wait_after_submit))
             (on_exception w self True cred target))
          (perform w ClosePage)) tr"
  by (simp add: attempt_login_def perform_def)

lemma attempt_login_not_opened:
  "act w tr NewPage = Some e \<Longrightarrow>
   attempt_login w self target cred given success_indicator wait_after_submit tr =
     after [NewPage] (on_exception w self False cred target e) tr"
  by (simp add: attempt_login_def perform_def)















text \<open>
  C9. Whenever \<open>new_page\<close> has returned a page, the last call of the attempt is the
  close of that page, every other call of the attempt lies before it, and a result is
  returned only after that close has returned normally, whatever the status; when
  \<open>new_page\<close> raises there is no page, and the only call that follows is the logging of
  the error.
\<close>

theorem page_closed_on_every_exit:
  "(act w tr NewPage = None \<longrightarrow>
      (\<exists>body. snd (attempt_login w self target cred given success_indicator wait_after_submit tr)
                 = NewPage # body @ [ClosePage]
              \<and> (\<forall>c \<in> set body. within_page c)
              \<and> (\<forall>res. fst (attempt_login w self target cred given success_indicator
                                wait_after_submit tr) = Inr res
                         \<longrightarrow> act w (tr @ NewPage # body) ClosePage = None)))
   \<and> (\<forall>e. act w tr NewPage = Some e \<longrightarrow>
         (\<exists>m. snd (attempt_login w self target cred given success_indicator wait_after_submit tr)
                 = [NewPage, LogError m]
             \<and> (act w (tr @ [NewPage]) (LogError m) = None \<longrightarrow>
                  (\<exists>res. fst (attempt_login w self target cred given success_indicator
                                 wait_after_submit tr) = Inr res
                        \<and> screenshot_path res = None
                        \<and> (status res = TIMEOUT \<or> status res = ERROR)))))"
proof (intro conjI impI allI)
  assume opened: "act w tr NewPage = None"
  let ?B = "try_except
             (bnd (open_and_resolve w self target given)
                  (login_steps w self target cred success_indicator wait_after_submit))
             (on_exception w self True cred target)"
  have e: "emits_only within_page ?B"
    by (rule attempt_body_emits) simp
  show "\<exists>body. snd (attempt_login w self target cred given success_indicator wait_after_submit tr)
                 = NewPage # body @ [ClosePage]
              \<and> (\<forall>c \<in> set body. within_page c)
              \<and> (\<forall>res. fst (attempt_login w self target cred given success_indicator
                                wait_after_submit tr) = Inr res
                         \<longrightarrow> act w (tr @ NewPage # body) ClosePage = None)"
  proof (intro exI [of _ "snd (?B (tr @ [NewPage]))"] conjI allI impI ballI)
    show "snd (attempt_login w self target cred given success_indicator wait_after_submit tr)
            = NewPage # snd (?B (tr @ [NewPage])) @ [ClosePage]"
      by (simp add: attempt_login_opened [OF opened] snd_try_finally)
  next
    fix c assume "c \<in> set (snd (?B (tr @ [NewPage])))"
    then show "within_page c"
      by (rule emits_onlyD [OF e])
  next
    fix res
    assume "fst (attempt_login w self target cred given success_indicator wait_after_submit tr)
              = Inr res"
    then show "act w (tr @ NewPage # snd (?B (tr @ [NewPage]))) ClosePage = None"
      by (simp add: attempt_login_opened [OF opened] fst_try_finally fst_perform
          split: option.splits sum.splits)
  qed
next
  fix e assume failed: "act w tr NewPage = Some e"
  show "\<exists>m. snd (attempt_login w self target cred given success_indicator wait_after_submit tr)
                 = [NewPage, LogError m]
             \<and> (act w (tr @ [NewPage]) (LogError m) = None \<longrightarrow>
                  (\<exists>res. fst (attempt_login w self target cred given success_indicator
                                 wait_after_submit tr) = Inr res
                        \<and> screenshot_path res = None
                        \<and> (status res = TIMEOUT \<or> status res = ERROR)))"
  proof (cases e)
    case (PlaywrightTimeout m)
    show ?thesis
      by (rule exI [of _ "''Timeout: '' @ m"])
         (simp add: attempt_login_not_opened [OF failed] on_exception_def PlaywrightTimeout
            fst_bnd snd_bnd fst_perform split: option.splits)
  next
    case (OtherException m)
    show ?thesis
      by (rule exI [of _ "''Error: '' @ m"])
         (simp add: attempt_login_not_opened [OF failed] on_exception_def OtherException
            fst_bnd snd_bnd fst_perform split: option.splits)
  qed
qed

theorem page_closed_on_every_exit_witness:
  "last (snd (attempt_login dashboard_page demo_automation login_url alice explicit_selectors
                None 3000 [])) = ClosePage
   \<and> (\<exists>m. snd (attempt_login crashed_browser demo_automation login_url alice explicit_selectors
                   None 3000 []) = [NewPage, LogError m])
   \<and> (\<exists>res. fst (attempt_login crashed_browser demo_automation login_url alice
                     explicit_selectors None 3000 []) = Inr res
            \<and> status res = ERROR)"
proof -
  have 1: "act dashboard_page [] NewPage = None"
    by (simp add: dashboard_page_def scripted_def no_failure_def)
  have 2: "act crashed_browser [] NewPage = Some (OtherException ''Browser has been closed'')"
    by (simp add: crashed_browser_def scripted_def fails_on_def)
  have 3: "act crashed_browser h (LogError m) = None" for h m
    by (simp add: crashed_browser_def scripted_def fails_on_def)
  have s: "status res \<noteq> TIMEOUT"
    if "fst (attempt_login crashed_browser demo_automation login_url alice explicit_selectors
               None 3000 []) = Inr res" for res
    using that by (auto simp: attempt_login_not_opened [OF 2] on_exception_def fst_bnd fst_perform 3)
  from page_closed_on_every_exit [of dashboard_page "[]" demo_automation login_url alice
        explicit_selectors None 3000] 1
  have a: "last (snd (attempt_login dashboard_page demo_automation login_url alice
                        explicit_selectors None 3000 [])) = ClosePage"
    by auto
  from page_closed_on_every_exit [of crashed_browser "[]" demo_automation login_url alice
        explicit_selectors None 3000] 2 3
  obtain m res where b: "snd (attempt_login crashed_browser demo_automation login_url alice
                                 explicit_selectors None 3000 []) = [NewPage, LogError m]"
    and r: "fst (attempt_login crashed_browser demo_automation login_url alice
                   explicit_selectors None 3000 []) = Inr res"
    and st: "status res = TIMEOUT \<or> status res = ERROR"
    by auto
  from s [OF r] st have "status res = ERROR"
    by simp
  with a b r show ?thesis
    by blast
qed

section \<open>Runs over a credential list\<close>


lemma attempts_and_delays_simps [simp]:
  "attempts_and_delays [] = []"
  "attempts_and_delays (NewPage # tr) = NewPage # attempts_and_delays tr"
  "attempts_and_delays (Sleep d # tr) = Sleep d # attempts_and_delays tr"
  "attempts_and_delays (EmitProgress i t m # tr) = attempts_and_delays tr"
  "attempts_and_delays (EmitResult r # tr) = attempts_and_delays tr"
  "attempts_and_delays (EmitFinished rs # tr) = attempts_and_delays tr"
  "attempts_and_delays (LogSummary t s f e # tr) = attempts_and_delays tr"
  "attempts_and_delays (LogSection n # tr) = attempts_and_delays tr"
  "attempts_and_delays (LogProgress i t m # tr) = attempts_and_delays tr"
  "attempts_and_delays (LogAttempt u v st # tr) = attempts_and_delays tr"
  "attempts_and_delays (ClosePage # tr) = attempts_and_delays tr"
  by (simp_all add: attempts_and_delays_def)

lemma emitted_append [simp]: "emitted (a @ b) = emitted a @ emitted b"
  by (induction a rule: emitted.induct) simp_all







subsection \<open>attempt_login as the loops see it\<close>















subsection \<open>the loops\<close>


lemma batch_loop_length:
  "fst (batch_loop w attempt target delay total_n idx cs results h) = Inr rs \<Longrightarrow>
   length rs = length results + length cs"
proof (induction cs arbitrary: idx results h)
  case Nil
  then show ?case by simp
next
  case (Cons c rest)
  from Cons.prems
  obtain r h' where "fst (batch_loop w attempt target delay total_n (Suc idx) rest
                            (results @ [r]) h') = Inr rs"
    by (auto simp: fst_bnd split: sum.splits if_splits)
  from Cons.IH [OF this] show ?case by simp
qed


declare batch_loop.simps(2) [simp del]









lemma count_partition:
  "success_count rs + failed_count rs + error_count rs
     + length (filter (\<lambda>r. status r = CAPTCHA_REQUIRED) rs) = length rs"
proof (induction rs)
  case Nil
  show ?case by (simp add: success_count_def failed_count_def error_count_def)
next
  case (Cons r rs)
  then show ?case
    by (cases "status r") (simp_all add: success_count_def failed_count_def error_count_def)
qed

lemma captcha_not_counted:
  "r \<in> set rs \<Longrightarrow> status r = CAPTCHA_REQUIRED \<Longrightarrow>
   success_count rs + failed_count rs + error_count rs < length rs"
proof -
  assume "r \<in> set rs" and "status r = CAPTCHA_REQUIRED"
  then have "filter (\<lambda>r. status r = CAPTCHA_REQUIRED) rs \<noteq> []"
    by (auto simp: filter_empty_conv)
  then have "0 < length (filter (\<lambda>r. status r = CAPTCHA_REQUIRED) rs)"
    by simp
  with count_partition [of rs] show ?thesis
    by linarith
qed




text \<open>
  C10. When \<open>batch_login\<close> returns, its last event is the summary with the total
  \<open>len(credentials)\<close>, which is the number of results; the error count covers exactly
  the results with status ERROR, TIMEOUT or ELEMENT\_NOT\_FOUND; the three counts and the
  number of CAPTCHA\_REQUIRED results add up to the total, so a single CAPTCHA\_REQUIRED
  result makes the three counts fall short of the total.
\<close>

theorem summary_leaves_out_captcha:
  assumes run: "batch_login w self target credentials given success_indicator delay tr
                  = (Inr results, d)"
  shows "(\<exists>body. d = body @ [LogSummary (length credentials) (success_count results)
                               (failed_count results) (error_count results)])
       \<and> length results = length credentials
       \<and> error_count results
           = length (filter (\<lambda>r. status r = ERROR \<or> status r = TIMEOUT
                                  \<or> status r = ELEMENT_NOT_FOUND) results)
       \<and> success_count results + failed_count results + error_count results
           + length (filter (\<lambda>r. status r = CAPTCHA_REQUIRED) results) = length credentials
       \<and> ((\<exists>r \<in> set results. status r = CAPTCHA_REQUIRED) \<longrightarrow>
            success_count results + failed_count results + error_count results
              < length credentials)"
proof -
  let ?loop = "batch_loop w (\<lambda>c. attempt_login w self target c given success_indicator 3000)
                 target delay (length credentials) 1 credentials []
                 (tr @ [LogSection (length credentials)])"
  from run have f: "fst ?loop = Inr results"
    by (auto simp: batch_login_def bnd_def after_def perform_def ret_def
        split: prod.splits sum.splits option.splits)
  from run have d: "d = (LogSection (length credentials) # snd ?loop)
                          @ [LogSummary (length credentials) (success_count results)
                               (failed_count results) (error_count results)]"
    by (auto simp: batch_login_def bnd_def after_def perform_def ret_def
        split: prod.splits sum.splits option.splits)
  from batch_loop_length [OF f] have len: "length results = length credentials"
    by simp
  have body: "\<exists>body. d = body @ [LogSummary (length credentials) (success_count results)
                               (failed_count results) (error_count results)]"
    using d by blast
  show ?thesis
    using body len count_partition [of results] captcha_not_counted [of _ results]
    by (auto simp: error_count_def)
qed

theorem summary_leaves_out_captcha_witness:
  "success_count
     [\<lparr>status = CAPTCHA_REQUIRED, credential = alice, url = login_url,
       message = ''Failed to solve captcha'',
       screenshot_path = Some ''screenshots/alice_1700000000_captcha_failed.png''\<rparr>]
   + failed_count
     [\<lparr>status = CAPTCHA_REQUIRED, credential = alice, url = login_url,
       message = ''Failed to solve captcha'',
       screenshot_path = Some ''screenshots/alice_1700000000_captcha_failed.png''\<rparr>]
   + error_count
     [\<lparr>status = CAPTCHA_REQUIRED, credential = alice, url = login_url,
       message = ''Failed to solve captcha'',
       screenshot_path = Some ''screenshots/alice_1700000000_captcha_failed.png''\<rparr>]
   < length [alice]"
proof -
  let ?rs = "[\<lparr>status = CAPTCHA_REQUIRED, credential = alice, url = login_url,
               message = ''Failed to solve captcha'',
               screenshot_path = Some ''screenshots/alice_1700000000_captcha_failed.png''\<rparr>]"
  have "fst (batch_login captcha_page demo_automation login_url [alice] captcha_selectors None
               2000 []) = Inr ?rs"
    by code_simp
  from run_eq [OF this]
  have 1: "batch_login captcha_page demo_automation login_url [alice] captcha_selectors None
             2000 [] =
           (Inr ?rs, snd (batch_login captcha_page demo_automation login_url [alice]
                            captcha_selectors None 2000 []))" .
  show ?thesis
    using summary_leaves_out_captcha [OF 1]
    by simp
qed

end
